theory Spec2Isabelle
  imports Main "HOL-Library.Sublist"
begin

section \<open>Strings and the string operations the program uses\<close>

text \<open>
  A Python string is modelled as a \<^typ>\<open>string\<close>: a list of characters, each character one
  code point in the range 0..255. The functions below are the string methods and the
  regular-expression calls of \<^verbatim>\<open>pypage.py\<close>, written out on lists.
\<close>

text \<open>
  The class \<^verbatim>\<open>\s\<close> of a Python 3 pattern on \<^verbatim>\<open>str\<close>: the code points for which
  \<^verbatim>\<open>str.isspace\<close> holds. Below 256 these are 9..13, 28..32, 133 and 160.
\<close>

definition isspace :: "char \<Rightarrow> bool" where
  "isspace c =
     (let n = (of_char c :: nat)
      in (9 \<le> n \<and> n \<le> 13) \<or> (28 \<le> n \<and> n \<le> 32) \<or> n = 133 \<or> n = 160)"

text \<open>
  \<^verbatim>\<open>re.compile(tag).search(line)\<close> for a pattern without metacharacters: the start of the
  leftmost occurrence of \<open>tag\<close> in \<open>line\<close>, or \<open>None\<close>.
\<close>

fun re_search :: "string \<Rightarrow> string \<Rightarrow> nat option" where
  "re_search tag [] = (if tag = [] then Some 0 else None)"
| "re_search tag (c # cs) =
     (if prefix tag (c # cs) then Some 0 else map_option Suc (re_search tag cs))"

text \<open>
  \<^verbatim>\<open>re.compile(r"\s*%s\s*\n" % tag).match(line)\<close>, as a truth value. The match is anchored
  at the start of the line only. The tags start with \<^verbatim>\<open><\<close>, which is not white space, so the
  first \<^verbatim>\<open>\s*\<close> can only take the whole leading run of white space; after the tag,
  \<^verbatim>\<open>\s*\n\<close> matches exactly when the run of white space that follows contains a newline.
\<close>

definition re_match_delimiter :: "string \<Rightarrow> string \<Rightarrow> bool" where
  "re_match_delimiter tag line =
     (let r = dropWhile isspace line
      in prefix tag r \<and> CHR ''\<newline>'' \<in> set (takeWhile isspace (drop (length tag) r)))"

text \<open>\<^verbatim>\<open>s[a:b]\<close> for indices that are not negative.\<close>

definition slice :: "nat \<Rightarrow> nat \<Rightarrow> string \<Rightarrow> string" where
  "slice a b s = take (b - a) (drop a s)"

text \<open>\<^verbatim>\<open>s.split('\n')\<close>: the pieces between newlines; never the empty list.\<close>

fun split_nl :: "string \<Rightarrow> string list" where
  "split_nl [] = [[]]"
| "split_nl (c # cs) =
     (if c = CHR ''\<newline>'' then [] # split_nl cs
      else (case split_nl cs of [] \<Rightarrow> [[c]] | x # xs \<Rightarrow> (c # x) # xs))"

text \<open>\<^verbatim>\<open>sep.join(xs)\<close>.\<close>

fun join :: "string \<Rightarrow> string list \<Rightarrow> string" where
  "join sep [] = []"
| "join sep [x] = x"
| "join sep (x # y # zs) = x @ sep @ join sep (y # zs)"

text \<open>\<^verbatim>\<open>"%d" % i\<close> for a natural number: its decimal digits.\<close>

definition digit_char :: "nat \<Rightarrow> char" where
  "digit_char d = char_of (48 + d)"

fun str_nat :: "nat \<Rightarrow> string" where
  "str_nat n = (if n < 10 then [digit_char n] else str_nat (n div 10) @ [digit_char (n mod 10)])"

declare str_nat.simps [simp del]

section \<open>Exceptions\<close>

text \<open>
  Every way a render can fail is a value: the assertion of \<^verbatim>\<open>find_indentation_level\<close>,
  the index and iterator errors of the engine and the assembler, and what the evaluated
  program raises. \<open>Unsupported\<close> is not a Python exception: the model of the host
  below answers with it on a program outside the statement forms it evaluates.
\<close>

datatype exn =
    AssertionError
  | IndexError
  | StopIteration
  | NameError string
  | AttributeError string
  | Unsupported

section \<open>The tag scanner: \<^verbatim>\<open>process_python_tags\<close>\<close>

datatype PythonCode = PythonCode (code: string) (id_level: nat)

text \<open>An entry of the list \<^verbatim>\<open>result\<close>: a plain \<^verbatim>\<open>str\<close> or a \<^verbatim>\<open>PythonCode\<close> object.\<close>

datatype segment = Str string | Code PythonCode

datatype mode = mode_plain | mode_code

definition multiline_delimiter_open :: string where
  "multiline_delimiter_open = ''<python>''"

definition multiline_delimiter_close :: string where
  "multiline_delimiter_close = ''</python>''"

definition inline_delimiter_open :: string where
  "inline_delimiter_open = ''<py>''"

definition inline_delimiter_close :: string where
  "inline_delimiter_close = ''</py>''"

definition re_delimiter_open :: "string \<Rightarrow> bool" where
  "re_delimiter_open line = re_match_delimiter multiline_delimiter_open line"

definition re_delimiter_close :: "string \<Rightarrow> bool" where
  "re_delimiter_close line = re_match_delimiter multiline_delimiter_close line"

definition re_short_open :: "string \<Rightarrow> nat option" where
  "re_short_open line = re_search inline_delimiter_open line"

definition re_short_close :: "string \<Rightarrow> nat option" where
  "re_short_close line = re_search inline_delimiter_close line"

text \<open>
  \<^verbatim>\<open>find_indentation_level\<close>: the column of the first \<^verbatim>\<open><python>\<close>; the assertion
  \<^verbatim>\<open>m != None\<close> is the error branch.
\<close>

definition find_indentation_level :: "string \<Rightarrow> exn + nat" where
  "find_indentation_level opening_line =
     (case re_search multiline_delimiter_open opening_line of
        None \<Rightarrow> Inl AssertionError
      | Some start \<Rightarrow> Inr start)"

text \<open>The local variables of the scanning loop.\<close>

record scan_state =
  st_result :: "segment list"
  st_collect :: string
  st_id_level :: nat
  st_mode :: mode

definition scan_init :: scan_state where
  "scan_init = \<lparr>st_result = [], st_collect = [], st_id_level = 0, st_mode = mode_plain\<rparr>"

text \<open>One line in code mode: \<^verbatim>\<open>line[id_level:] if len(line) > id_level else "\n"\<close>.\<close>

definition strip_indent :: "nat \<Rightarrow> string \<Rightarrow> string" where
  "strip_indent k line = (if length line > k then drop k line else ''\<newline>'')"

text \<open>The body of the loop over the lines, with the branches in the order of the source.\<close>

definition scan_line :: "scan_state \<Rightarrow> string \<Rightarrow> exn + scan_state" where
  "scan_line st line =
     (if re_delimiter_open line then
        (case find_indentation_level line of
           Inl e \<Rightarrow> Inl e
         | Inr k \<Rightarrow>
             Inr \<lparr>st_result = st_result st @ [Str (st_collect st)], st_collect = [],
                  st_id_level = k, st_mode = mode_code\<rparr>)
      else if re_delimiter_close line then
        Inr \<lparr>st_result = st_result st @ [Code (PythonCode (st_collect st) (st_id_level st))],
             st_collect = ''\<newline>'', st_id_level = 0, st_mode = mode_plain\<rparr>
      else
        (case (re_short_open line, re_short_close line) of
           (Some ops, Some cls) \<Rightarrow>
             (let pre_py = take ops line;
                  in_py = slice (ops + length inline_delimiter_open) cls line;
                  post_py = drop (cls + length inline_delimiter_close) line
              in Inr (st\<lparr>st_result :=
                           st_result st @ [Str (st_collect st @ pre_py), Code (PythonCode in_py 0)],
                         st_collect := post_py\<rparr>))
         | _ \<Rightarrow>
             (case st_mode st of
                mode_plain \<Rightarrow> Inr (st\<lparr>st_collect := st_collect st @ line\<rparr>)
              | mode_code \<Rightarrow>
                  Inr (st\<lparr>st_collect := st_collect st @ strip_indent (st_id_level st) line\<rparr>))))"

fun scan_lines :: "scan_state \<Rightarrow> string list \<Rightarrow> exn + scan_state" where
  "scan_lines st [] = Inr st"
| "scan_lines st (line # lines) =
     (case scan_line st line of Inl e \<Rightarrow> Inl e | Inr st' \<Rightarrow> scan_lines st' lines)"

definition process_python_tags :: "string list \<Rightarrow> exn + segment list" where
  "process_python_tags lines =
     (case scan_lines scan_init lines of
        Inl e \<Rightarrow> Inl e
      | Inr st \<Rightarrow> Inr (st_result st @ [Str (st_collect st)]))"

section \<open>The execution engine: \<^verbatim>\<open>execPythonCode\<close>\<close>

text \<open>
  The text of the program handed to \<^verbatim>\<open>exec\<close>: the fixed prelude with the number of
  segments filled in, then for each segment the line that sets \<^verbatim>\<open>__section__\<close> to the
  segment's index followed by the segment's code, the sections joined by newlines.
\<close>

definition section_text :: "nat \<times> PythonCode \<Rightarrow> string" where
  \<open>section_text p = ''__section__ = '' @ str_nat (fst p) @ ''\<newline>'' @ code (snd p)\<close>

definition prelude_text :: "nat \<Rightarrow> string" where
  \<open>prelude_text count =
     ''\<newline>__output__ = [""]*'' @ str_nat count @
     ''\<newline>\<newline>def write(s):\<newline>    __output__[__section__] += str(s)\<newline>\<newline>''\<close>

definition program_text :: "PythonCode list \<Rightarrow> string" where
  "program_text code_objects =
     prelude_text (length code_objects) @
     join ''\<newline>'' (map section_text (enumerate 0 code_objects))"

text \<open>
  The host's evaluation facility (\<^verbatim>\<open>importCode\<close>: \<^verbatim>\<open>exec\<close> of the text in a fresh module)
  is a parameter of the model: a function from the program text to the exception raised, or
  to the list \<^verbatim>\<open>__output__\<close> of the module after the run, taken to be a list of strings.
\<close>

type_synonym host = "string \<Rightarrow> exn + string list"

text \<open>One buffer, re-indented: every piece between newlines gets \<open>k\<close> spaces in front.\<close>

definition reindent :: "nat \<Rightarrow> string \<Rightarrow> string" where
  "reindent k o_buf = join ''\<newline>'' (map (\<lambda>s. replicate k CHR '' '' @ s) (split_nl o_buf))"

text \<open>
  The loop \<^verbatim>\<open>for i, o in enumerate(self.m.__output__)\<close>: buffer \<open>i\<close> is re-indented by
  \<^verbatim>\<open>id_levels[i]\<close>, which raises \<^verbatim>\<open>IndexError\<close> when there are more buffers than levels.
\<close>

fun apply_indentation :: "nat list \<Rightarrow> string list \<Rightarrow> exn + string list" where
  "apply_indentation id_levels [] = Inr []"
| "apply_indentation [] (o_buf # os) = Inl IndexError"
| "apply_indentation (k # id_levels) (o_buf # os) =
     (case apply_indentation id_levels os of
        Inl e \<Rightarrow> Inl e
      | Inr r \<Rightarrow> Inr (reindent k o_buf # r))"

definition execPythonCode :: "host \<Rightarrow> PythonCode list \<Rightarrow> exn + string list" where
  "execPythonCode importCode code_objects =
     (case importCode (program_text code_objects) of
        Inl e \<Rightarrow> Inl e
      | Inr output \<Rightarrow> apply_indentation (map id_level code_objects) output)"

section \<open>The assembler: \<^verbatim>\<open>pypage\<close>\<close>

text \<open>\<^verbatim>\<open>filter(lambda x: type(x) == PythonCode, result)\<close>.\<close>

fun code_objects_of :: "segment list \<Rightarrow> PythonCode list" where
  "code_objects_of [] = []"
| "code_objects_of (Str s # segs) = code_objects_of segs"
| "code_objects_of (Code c # segs) = c # code_objects_of segs"

text \<open>
  The loop that replaces each \<^verbatim>\<open>PythonCode\<close> entry by \<^verbatim>\<open>next(outputIter)\<close>; the iterator
  raises \<^verbatim>\<open>StopIteration\<close> when the buffers run out.
\<close>

fun substitute :: "segment list \<Rightarrow> string list \<Rightarrow> exn + string list" where
  "substitute [] outs = Inr []"
| "substitute (Str s # segs) outs =
     (case substitute segs outs of Inl e \<Rightarrow> Inl e | Inr r \<Rightarrow> Inr (s # r))"
| "substitute (Code c # segs) [] = Inl StopIteration"
| "substitute (Code c # segs) (out # outs) =
     (case substitute segs outs of Inl e \<Rightarrow> Inl e | Inr r \<Rightarrow> Inr (out # r))"

text \<open>\<^verbatim>\<open>pypage\<close>, from the lines that \<^verbatim>\<open>readlines\<close> returned.\<close>

definition pypage :: "host \<Rightarrow> string list \<Rightarrow> exn + string" where
  "pypage importCode lines =
     (case process_python_tags lines of
        Inl e \<Rightarrow> Inl e
      | Inr result \<Rightarrow>
          (case execPythonCode importCode (code_objects_of result) of
             Inl e \<Rightarrow> Inl e
           | Inr output \<Rightarrow>
               (case substitute result output of
                  Inl e \<Rightarrow> Inl e
                | Inr pieces \<Rightarrow> Inr (concat pieces))))"

section \<open>A model of the host's evaluation on a fragment of Python\<close>

text \<open>
  The general results take the host as a parameter. The concrete results need a host that
  runs: \<open>py_exec\<close> evaluates the programs whose lines are blank or one of
  \<^verbatim>\<open>pass\<close>, \<^verbatim>\<open>__section__ = N\<close>, \<^verbatim>\<open>__output__ = [""]*N\<close>, \<^verbatim>\<open>v = atom\<close>, \<^verbatim>\<open>write(atom)\<close>,
  the two-line definition of \<^verbatim>\<open>write\<close> of the prelude, and \<^verbatim>\<open>for v in range(N):\<close>
  followed by a body of such simple statements indented by four spaces. A variable
  \<^verbatim>\<open>v\<close> is one lower-case letter (no keyword and no builtin has such a name); an atom is a
  variable, a decimal literal of at most four digits or a string literal in double quotes
  made of printable ASCII characters without escapes.
  The text is parsed as a whole before anything runs, as \<^verbatim>\<open>exec\<close> compiles it first.
  The model is used at closed programs only; nothing below is stated for every program.
\<close>

datatype pyval = PyInt nat | PyStr string

text \<open>\<^verbatim>\<open>str(v)\<close>.\<close>

definition str_val :: "pyval \<Rightarrow> string" where
  "str_val v = (case v of PyInt n \<Rightarrow> str_nat n | PyStr s \<Rightarrow> s)"

text \<open>
  The module's namespace: the list \<^verbatim>\<open>__output__\<close>, the cursor \<^verbatim>\<open>__section__\<close>, whether
  \<^verbatim>\<open>write\<close> is defined, and the one-letter variables. \<open>None\<close> is an unbound name.
\<close>

record namespace =
  ns_output :: "string list option"
  ns_section :: "nat option"
  ns_write :: bool
  ns_vars :: "char \<Rightarrow> pyval option"

definition ns_empty :: namespace where
  "ns_empty = \<lparr>ns_output = None, ns_section = None, ns_write = False, ns_vars = (\<lambda>c. None)\<rparr>"

datatype atom = Lit pyval | Var char

datatype simple_stmt =
    Pass
  | SetSection nat
  | SetOutput nat
  | Assign char atom
  | Write atom

datatype stmt = Simple simple_stmt | DefWrite | For char nat "simple_stmt list"

subsection \<open>Parsing\<close>

definition is_digit :: "char \<Rightarrow> bool" where
  "is_digit c = (48 \<le> (of_char c :: nat) \<and> (of_char c :: nat) \<le> 57)"

definition is_var :: "char \<Rightarrow> bool" where
  "is_var c = (97 \<le> (of_char c :: nat) \<and> (of_char c :: nat) \<le> 122)"

definition digit_val :: "char \<Rightarrow> nat" where
  "digit_val c = of_char c - 48"

text \<open>
  A decimal literal of the fragment: one to four digits, with no leading zero unless it is
  the single digit 0. Longer literals are left out: the host has limits on the digits of a
  literal and on the size of a list.
\<close>

definition parse_nat :: "string \<Rightarrow> nat option" where
  "parse_nat s =
     (if s \<noteq> [] \<and> length s \<le> 4 \<and> list_all is_digit s \<and> (length s = 1 \<or> hd s \<noteq> CHR ''0'')
      then Some (foldl (\<lambda>a c. 10 * a + digit_val c) 0 s) else None)"

definition strip_prefix :: "string \<Rightarrow> string \<Rightarrow> string option" where
  "strip_prefix p s = (if prefix p s then Some (drop (length p) s) else None)"

definition strip_suffix :: "string \<Rightarrow> string \<Rightarrow> string option" where
  "strip_suffix p s = map_option rev (strip_prefix (rev p) (rev s))"

text \<open>
  A character of a string literal of the fragment: printable ASCII (32..126) other than the
  double quote and the backslash. Control characters are left out: the host refuses a NUL
  in the source and ends the line at a carriage return.
\<close>

definition plain_char :: "char \<Rightarrow> bool" where
  \<open>plain_char c =
     (32 \<le> (of_char c :: nat) \<and> (of_char c :: nat) \<le> 126 \<and> c \<noteq> CHR ''"'' \<and> c \<noteq> CHR 0x5C)\<close>

definition parse_atom :: "string \<Rightarrow> atom option" where
  \<open>parse_atom s =
     (case parse_nat s of
        Some n \<Rightarrow> Some (Lit (PyInt n))
      | None \<Rightarrow>
          (case s of
             [c] \<Rightarrow> if is_var c then Some (Var c) else None
           | _ \<Rightarrow>
               (case strip_prefix ''"'' s of
                  None \<Rightarrow> None
                | Some r \<Rightarrow>
                    (case strip_suffix ''"'' r of
                       None \<Rightarrow> None
                     | Some body \<Rightarrow>
                         if list_all plain_char body then Some (Lit (PyStr body)) else None))))\<close>

definition parse_simple :: "string \<Rightarrow> simple_stmt option" where
  \<open>parse_simple line =
     (if line = ''pass'' then Some Pass
      else case strip_prefix ''__section__ = '' line of
        Some r \<Rightarrow> map_option SetSection (parse_nat r)
      | None \<Rightarrow>
     (case strip_prefix ''__output__ = [""]*'' line of
        Some r \<Rightarrow> map_option SetOutput (parse_nat r)
      | None \<Rightarrow>
     (case strip_prefix ''write('' line of
        Some r \<Rightarrow>
          (case strip_suffix '')'' r of
             None \<Rightarrow> None
           | Some a \<Rightarrow> map_option Write (parse_atom a))
      | None \<Rightarrow>
     (case line of
        [] \<Rightarrow> None
      | c # r \<Rightarrow>
          if is_var c then
            (case strip_prefix '' = '' r of
               None \<Rightarrow> None
             | Some a \<Rightarrow> map_option (Assign c) (parse_atom a))
          else None))))\<close>

definition parse_for :: "string \<Rightarrow> (char \<times> nat) option" where
  "parse_for line =
     (case strip_prefix ''for '' line of
        None \<Rightarrow> None
      | Some [] \<Rightarrow> None
      | Some (c # r) \<Rightarrow>
          if is_var c then
            (case strip_prefix '' in range('' r of
               None \<Rightarrow> None
             | Some r2 \<Rightarrow>
                 (case strip_suffix ''):'' r2 of
                    None \<Rightarrow> None
                  | Some d \<Rightarrow> map_option (Pair c) (parse_nat d)))
          else None)"

definition indented :: "string \<Rightarrow> bool" where
  "indented line = prefix ''    '' line"

definition def_write_head :: string where
  "def_write_head = ''def write(s):''"

definition def_write_body :: string where
  "def_write_body = ''    __output__[__section__] += str(s)''"

function parse_program :: "string list \<Rightarrow> stmt list option" where
  "parse_program [] = Some []"
| "parse_program (l # ls) =
     (if l = [] then parse_program ls
      else if l = def_write_head then
        (case ls of
           [] \<Rightarrow> None
         | b # ls' \<Rightarrow>
             if b = def_write_body then
               (case parse_program ls' of None \<Rightarrow> None | Some p \<Rightarrow> Some (DefWrite # p))
             else None)
      else
        (case parse_for l of
           Some (c, n) \<Rightarrow>
             (case those (map (\<lambda>b. parse_simple (drop 4 b)) (takeWhile indented ls)) of
                None \<Rightarrow> None
              | Some body \<Rightarrow>
                  if body = [] then None
                  else (case parse_program (dropWhile indented ls) of
                          None \<Rightarrow> None
                        | Some p \<Rightarrow> Some (For c n body # p)))
         | None \<Rightarrow>
             (case parse_simple l of
                None \<Rightarrow> None
              | Some s \<Rightarrow>
                  (case parse_program ls of None \<Rightarrow> None | Some p \<Rightarrow> Some (Simple s # p)))))"
  by pat_completeness auto

termination
  by (relation "measure length") (auto simp: less_Suc_eq_le length_dropWhile_le)

declare parse_program.simps [simp del]

subsection \<open>Evaluation\<close>

definition eval_atom :: "atom \<Rightarrow> namespace \<Rightarrow> exn + pyval" where
  "eval_atom a ns =
     (case a of
        Lit v \<Rightarrow> Inr v
      | Var c \<Rightarrow> (case ns_vars ns c of None \<Rightarrow> Inl (NameError [c]) | Some v \<Rightarrow> Inr v))"

text \<open>
  The body of \<^verbatim>\<open>write\<close>, lines 43 and 44 of \<^verbatim>\<open>pypage.py\<close>:
  \<^verbatim>\<open>__output__[__section__] += str(s)\<close> reads both globals, reads the buffer under the
  cursor (an \<^verbatim>\<open>IndexError\<close> when the cursor is out of range), and stores the buffer with
  \<^verbatim>\<open>str(s)\<close> appended.
\<close>

definition py_write :: "pyval \<Rightarrow> namespace \<Rightarrow> exn + namespace" where
  "py_write s ns =
     (case ns_output ns of
        None \<Rightarrow> Inl (NameError ''__output__'')
      | Some out \<Rightarrow>
          (case ns_section ns of
             None \<Rightarrow> Inl (NameError ''__section__'')
           | Some i \<Rightarrow>
               if i < length out
               then Inr (ns\<lparr>ns_output := Some (out[i := out ! i @ str_val s])\<rparr>)
               else Inl IndexError))"

fun exec_simple :: "simple_stmt \<Rightarrow> namespace \<Rightarrow> exn + namespace" where
  "exec_simple Pass ns = Inr ns"
| "exec_simple (SetSection i) ns = Inr (ns\<lparr>ns_section := Some i\<rparr>)"
| "exec_simple (SetOutput n) ns = Inr (ns\<lparr>ns_output := Some (replicate n [])\<rparr>)"
| "exec_simple (Assign c a) ns =
     (case eval_atom a ns of
        Inl e \<Rightarrow> Inl e
      | Inr v \<Rightarrow> Inr (ns\<lparr>ns_vars := (ns_vars ns)(c := Some v)\<rparr>))"
| "exec_simple (Write a) ns =
     (if ns_write ns then
        (case eval_atom a ns of Inl e \<Rightarrow> Inl e | Inr v \<Rightarrow> py_write v ns)
      else Inl (NameError ''write''))"

fun exec_block :: "simple_stmt list \<Rightarrow> namespace \<Rightarrow> exn + namespace" where
  "exec_block [] ns = Inr ns"
| "exec_block (s # ss) ns =
     (case exec_simple s ns of Inl e \<Rightarrow> Inl e | Inr ns' \<Rightarrow> exec_block ss ns')"

text \<open>\<^verbatim>\<open>for c in range(n): body\<close>, over the values \<open>ks\<close> still to come.\<close>

fun exec_for :: "char \<Rightarrow> nat list \<Rightarrow> simple_stmt list \<Rightarrow> namespace \<Rightarrow> exn + namespace" where
  "exec_for c [] body ns = Inr ns"
| "exec_for c (k # ks) body ns =
     (case exec_block body (ns\<lparr>ns_vars := (ns_vars ns)(c := Some (PyInt k))\<rparr>) of
        Inl e \<Rightarrow> Inl e
      | Inr ns' \<Rightarrow> exec_for c ks body ns')"

fun exec_stmt :: "stmt \<Rightarrow> namespace \<Rightarrow> exn + namespace" where
  "exec_stmt (Simple s) ns = exec_simple s ns"
| "exec_stmt DefWrite ns = Inr (ns\<lparr>ns_write := True\<rparr>)"
| "exec_stmt (For c n body) ns = exec_for c [0..<n] body ns"

fun exec_stmts :: "stmt list \<Rightarrow> namespace \<Rightarrow> exn + namespace" where
  "exec_stmts [] ns = Inr ns"
| "exec_stmts (s # ss) ns =
     (case exec_stmt s ns of Inl e \<Rightarrow> Inl e | Inr ns' \<Rightarrow> exec_stmts ss ns')"

text \<open>
  The text run from a namespace: \<open>None\<close> when the text is outside the fragment.
\<close>

definition py_run :: "string \<Rightarrow> namespace \<Rightarrow> (exn + namespace) option" where
  "py_run text ns = map_option (\<lambda>p. exec_stmts p ns) (parse_program (split_nl text))"

text \<open>
  The host: the text run in a fresh module, then the attribute \<^verbatim>\<open>__output__\<close> of the
  module read (\<^verbatim>\<open>self.m.__output__\<close>).
\<close>

definition py_exec :: host where
  "py_exec text =
     (case py_run text ns_empty of
        None \<Rightarrow> Inl Unsupported
      | Some (Inl e) \<Rightarrow> Inl e
      | Some (Inr ns) \<Rightarrow>
          (case ns_output ns of
             None \<Rightarrow> Inl (AttributeError ''__output__'')
           | Some out \<Rightarrow> Inr out))"


section \<open>Predicates of the statements\<close>

text \<open>
  A line on which the scanner takes the inline branch: both \<^verbatim>\<open><py>\<close> and \<^verbatim>\<open></py>\<close> occur
  somewhere on it. A tag-free line matches neither block delimiter and is not such a line, so
  the scanner only accumulates it.
\<close>

definition has_inline_pair :: "string \<Rightarrow> bool" where
  "has_inline_pair line = (re_short_open line \<noteq> None \<and> re_short_close line \<noteq> None)"

definition tag_free_line :: "string \<Rightarrow> bool" where
  "tag_free_line line =
     (\<not> re_delimiter_open line \<and> \<not> re_delimiter_close line \<and> \<not> has_inline_pair line)"

text \<open>
  The first occurrence of \<open>tag\<close> in \<open>a @ tag\<close> is the one at the end: \<open>tag\<close> does not
  start anywhere inside \<open>a\<close>.
\<close>

definition first_occurrence :: "string \<Rightarrow> string \<Rightarrow> bool" where
  "first_occurrence tag a = (re_search tag (a @ tag) = Some (length a))"

text \<open>
  The invariant of the scanning loop: the indentation level is 0 whenever the mode is plain.
\<close>

definition plain_level :: "scan_state \<Rightarrow> bool" where
  "plain_level st = (st_mode st = mode_code \<or> st_id_level st = 0)"

text \<open>
  The block of the third testable property: \<^verbatim>\<open><python>\<close> at column 4 around a loop that
  writes \<open>0\<close>, \<open>1\<close>, \<open>2\<close>.
\<close>

definition loop_block :: "string list" where
  "loop_block = [''    <python>\<newline>'', ''    for i in range(3):\<newline>'',
                 ''        write(i)\<newline>'', ''    </python>\<newline>'']"


section \<open>The sections of the program, and the documents of the counterexamples\<close>





text \<open>
  A block that is opened at column 2 and never closed, with an inline pair on its second
  line; the lines after the opening line on their own.
\<close>

definition unclosed_body :: "string list" where
  "unclosed_body = [''  q = 1\<newline>'', ''  a<py>write(2)</py>b\<newline>'', ''  c\<newline>'']"

definition unclosed_document :: "string list" where
  "unclosed_document = ''  <python>\<newline>'' # unclosed_body"

text \<open>A line with two inline pairs after a closing delimiter.\<close>

definition close_first_line :: string where
  "close_first_line = ''</py>a<py>x</py>b<py>y</py>c''"


section \<open>The scanner never fails\<close>

lemma re_search_first:
  "t \<notin> set ws \<Longrightarrow> re_search (t # ts) (ws @ (t # ts) @ b) = Some (length ws)"
  by (induction ws) auto

lemma isspace_lt [simp]: "\<not> isspace CHR ''<''"
  by (simp add: isspace_def)

lemma isspace_nl [simp]: "isspace CHR ''\<newline>''"
  by (simp add: isspace_def)

lemma match_delimiter_shape:
  assumes "re_match_delimiter (CHR ''<'' # ts) line"
  shows "\<exists>b. line = takeWhile isspace line @ (CHR ''<'' # ts) @ b"
proof -
  from assms obtain b where "dropWhile isspace line = (CHR ''<'' # ts) @ b"
    by (auto simp: re_match_delimiter_def Let_def prefix_def)
  then have "line = takeWhile isspace line @ (CHR ''<'' # ts) @ b"
    by (metis takeWhile_dropWhile_id)
  then show ?thesis ..
qed

lemma find_indentation_level_open:
  assumes "re_delimiter_open line"
  shows "find_indentation_level line = Inr (length (takeWhile isspace line))"
proof -
  let ?ws = "takeWhile isspace line"
  from assms obtain b where l: "line = ?ws @ ''<python>'' @ b"
    using match_delimiter_shape [of "''python>''" line]
    by (auto simp: re_delimiter_open_def multiline_delimiter_open_def)
  have "CHR ''<'' \<notin> set ?ws"
    by (auto dest: set_takeWhileD)
  then have "re_search ''<python>'' (?ws @ ''<python>'' @ b) = Some (length ?ws)"
    using re_search_first [of "CHR ''<''" ?ws "''python>''" b] by simp
  with l have "re_search ''<python>'' line = Some (length ?ws)" by simp
  then show ?thesis
    by (simp add: find_indentation_level_def multiline_delimiter_open_def)
qed

lemma open_not_close: "re_delimiter_open line \<Longrightarrow> \<not> re_delimiter_close line"
  by (auto simp: re_delimiter_open_def re_delimiter_close_def re_match_delimiter_def Let_def
      multiline_delimiter_open_def multiline_delimiter_close_def prefix_def)

lemma scan_line_total: "\<exists>st'. scan_line st line = Inr st'"
  by (auto simp: scan_line_def find_indentation_level_open Let_def
      split: option.splits mode.splits)

lemma scan_lines_total: "\<exists>st'. scan_lines st lines = Inr st'"
proof (induction lines arbitrary: st)
  case Nil
  show ?case by simp
next
  case (Cons line lines)
  obtain st1 where "scan_line st line = Inr st1"
    using scan_line_total by blast
  with Cons.IH [of st1] show ?case by simp
qed

lemma scan_lines_append:
  "scan_lines st (xs @ ys) =
     (case scan_lines st xs of Inl e \<Rightarrow> Inl e | Inr st' \<Rightarrow> scan_lines st' ys)"
  by (induction xs arbitrary: st) (auto split: sum.splits)

text \<open>
  C8. A line that matches the block-open pattern contains \<^verbatim>\<open><python>\<close>, so the search in
  \<^verbatim>\<open>find_indentation_level\<close> succeeds there (and returns the length of the leading white
  space); the assertion is the only raise of the scanner, so scanning returns a segment list
  on every list of lines.
\<close>

theorem find_indentation_level_never_fails:
  "(re_delimiter_open line \<longrightarrow> find_indentation_level line = Inr (length (takeWhile isspace line)))
   \<and> (\<exists>result. process_python_tags lines = Inr result)"
proof -
  obtain st where "scan_lines scan_init lines = Inr st"
    using scan_lines_total by blast
  then show ?thesis
    by (simp add: process_python_tags_def find_indentation_level_open)
qed

theorem find_indentation_level_never_fails_witness:
  "re_delimiter_open ''    <python>  \<newline>''
   \<and> find_indentation_level ''    <python>  \<newline>'' = Inr 4
   \<and> (\<exists>result. process_python_tags [''    <python>  \<newline>'', ''x''] = Inr result)"
  using find_indentation_level_never_fails
    [of "''    <python>  \<newline>''" "[''    <python>  \<newline>'', ''x'']"]
  by (simp add: re_delimiter_open_def re_match_delimiter_def multiline_delimiter_open_def
      isspace_def)


section \<open>Tag-free lines, the engine and the assembler\<close>

lemma scan_line_tag_free:
  "tag_free_line line \<Longrightarrow>
   scan_line st line =
     Inr (st\<lparr>st_collect := st_collect st @
            (case st_mode st of mode_plain \<Rightarrow> line
             | mode_code \<Rightarrow> strip_indent (st_id_level st) line)\<rparr>)"
  by (auto simp: tag_free_line_def has_inline_pair_def scan_line_def
      split: option.splits mode.splits)

lemma scan_lines_tag_free_plain:
  "list_all tag_free_line lines \<Longrightarrow> st_mode st = mode_plain \<Longrightarrow>
   scan_lines st lines = Inr (st\<lparr>st_collect := st_collect st @ concat lines\<rparr>)"
  by (induction lines arbitrary: st) (simp_all add: scan_line_tag_free)

lemma scan_lines_tag_free_code:
  "list_all tag_free_line lines \<Longrightarrow> st_mode st = mode_code \<Longrightarrow>
   scan_lines st lines =
     Inr (st\<lparr>st_collect := st_collect st @ concat (map (strip_indent (st_id_level st)) lines)\<rparr>)"
  by (induction lines arbitrary: st) (simp_all add: scan_line_tag_free)

lemma process_tag_free:
  "list_all tag_free_line lines \<Longrightarrow> process_python_tags lines = Inr [Str (concat lines)]"
  by (simp add: process_python_tags_def scan_lines_tag_free_plain scan_init_def)

lemma pypage_no_code:
  assumes "process_python_tags lines = Inr [Str s]" and "importCode (program_text []) = Inr []"
  shows "pypage importCode lines = Inr s"
  using assms by (simp add: pypage_def execPythonCode_def)

text \<open>
  C1. A document without tags renders to itself. When no line matches the block-open or
  the block-close pattern and no line holds both inline delimiters, the scanner returns the
  single plain segment that is the concatenation of the lines; no code is evaluated beyond
  the prelude, and when the host runs the prelude (the program of an empty segment list,
  which leaves \<^verbatim>\<open>__output__\<close> empty) the render is that concatenation.
\<close>

theorem tag_free_render_identity:
  assumes "list_all tag_free_line lines"
  shows "process_python_tags lines = Inr [Str (concat lines)]
         \<and> (importCode (program_text []) = Inr [] \<longrightarrow> pypage importCode lines = Inr (concat lines))"
  using assms by (simp add: process_tag_free pypage_no_code)

lemma py_exec_empty_program: "py_exec (program_text []) = Inr []"
  by code_simp

text \<open>
  C4. When the host raises on the program of the document, \<^verbatim>\<open>pypage\<close> returns that
  exception itself: no text, partial or empty, is returned, and the exception is the one
  the host raised.
\<close>

theorem evaluation_error_propagates:
  assumes "process_python_tags lines = Inr result"
    and "importCode (program_text (code_objects_of result)) = Inl e"
  shows "pypage importCode lines = Inl e"
  using assms by (simp add: pypage_def execPythonCode_def)

lemma reindent_empty: "reindent k [] = replicate k CHR '' ''"
  by (simp add: reindent_def)

lemma apply_indentation_Inr:
  "apply_indentation ids bufs = Inr outs \<Longrightarrow>
   length outs = length bufs \<and> length bufs \<le> length ids
   \<and> (\<forall>i < length bufs. outs ! i = reindent (ids ! i) (bufs ! i))"
proof (induction ids bufs arbitrary: outs rule: apply_indentation.induct)
  case (1 id_levels)
  then show ?case by simp
next
  case (2 o_buf os)
  then show ?case by simp
next
  case (3 k id_levels o_buf os)
  from "3.prems" obtain r where r: "apply_indentation id_levels os = Inr r"
    and outs: "outs = reindent k o_buf # r"
    by (auto split: sum.splits)
  from "3.IH" [OF r] show ?case
    by (auto simp: outs nth_Cons split: nat.splits)
qed



lemma scan_line_close:
  assumes "re_delimiter_close line"
  shows "scan_line st line =
     Inr \<lparr>st_result = st_result st @ [Code (PythonCode (st_collect st) (st_id_level st))],
          st_collect = ''\<newline>'', st_id_level = 0, st_mode = mode_plain\<rparr>"
  using assms open_not_close [of line] by (auto simp: scan_line_def)

lemma scan_line_plain_level:
  "scan_line st line = Inr st' \<Longrightarrow> plain_level st \<Longrightarrow> plain_level st'"
  by (auto simp: scan_line_def plain_level_def Let_def
      split: if_splits sum.splits option.splits mode.splits)

lemma scan_lines_plain_level:
  "scan_lines st lines = Inr st' \<Longrightarrow> plain_level st \<Longrightarrow> plain_level st'"
proof (induction lines arbitrary: st)
  case Nil
  then show ?case by simp
next
  case (Cons line lines)
  from Cons.prems(1) obtain st1 where 1: "scan_line st line = Inr st1"
    and 2: "scan_lines st1 lines = Inr st'"
    by (auto split: sum.splits)
  from Cons.IH [OF 2] scan_line_plain_level [OF 1 Cons.prems(2)] show ?case .
qed

lemma code_objects_of_append:
  "code_objects_of (xs @ ys) = code_objects_of xs @ code_objects_of ys"
  by (induction xs rule: code_objects_of.induct) simp_all

text \<open>
  C9. A block-close line met in plain mode (no block is open) does not raise and is not kept
  as text: the text accumulated since the last flush becomes a \<^verbatim>\<open>PythonCode\<close> segment of
  indentation level 0, so it is part of the program that is evaluated, and the accumulator
  restarts with a newline.
\<close>

theorem stray_close_emits_code:
  assumes "scan_lines scan_init before = Inr st"
    and "st_mode st = mode_plain"
    and "re_delimiter_close line"
  shows "process_python_tags (before @ [line]) =
           Inr (st_result st @ [Code (PythonCode (st_collect st) 0), Str ''\<newline>''])
         \<and> code_objects_of (st_result st @ [Code (PythonCode (st_collect st) 0), Str ''\<newline>'']) =
             code_objects_of (st_result st) @ [PythonCode (st_collect st) 0]
         \<and> (list_all tag_free_line before \<longrightarrow>
              process_python_tags (before @ [line]) =
                Inr [Code (PythonCode (concat before) 0), Str ''\<newline>''])"
proof -
  have "plain_level scan_init" by (simp add: plain_level_def scan_init_def)
  with assms(1) have "plain_level st" by (rule scan_lines_plain_level)
  with assms(2) have "st_id_level st = 0" by (simp add: plain_level_def)
  with assms(1,3) have p: "process_python_tags (before @ [line]) =
      Inr (st_result st @ [Code (PythonCode (st_collect st) 0), Str ''\<newline>''])"
    by (simp add: process_python_tags_def scan_lines_append scan_line_close)
  have "st_result st = [] \<and> st_collect st = concat before" if "list_all tag_free_line before"
    using that assms(1) by (auto simp: scan_lines_tag_free_plain scan_init_def)
  with p show ?thesis
    by (simp add: code_objects_of_append)
qed

lemma substitute_append_Str:
  "substitute (segs @ [Str s]) outs = map_sum id (\<lambda>r. r @ [s]) (substitute segs outs)"
  by (induction segs outs rule: substitute.induct) (auto split: sum.splits)

lemma scan_line_open:
  assumes "re_delimiter_open line"
  shows "scan_line st line =
     Inr \<lparr>st_result = st_result st @ [Str (st_collect st)], st_collect = [],
          st_id_level = length (takeWhile isspace line), st_mode = mode_code\<rparr>"
  using assms by (simp add: scan_line_def find_indentation_level_open)

text \<open>
  C6, as stated, fails on a block that is never closed and holds an inline pair on one of
  its lines. The inline branch comes before the test of the mode, so in code mode too the
  text accumulated so far is flushed together with the text before the pair, which keeps
  its indentation; the code of the pair is a \<^verbatim>\<open>PythonCode\<close> segment and is evaluated; and the
  final plain segment holds only what follows the pair. Neither the segments nor the render
  are the stripped lines of the block.
\<close>

theorem unclosed_block_inline_counterexample:
  "re_delimiter_open (hd unclosed_document)
   \<and> list_all (\<lambda>line. \<not> re_delimiter_close line) unclosed_document
   \<and> concat (map (strip_indent 2) unclosed_body) = ''q = 1\<newline>a<py>write(2)</py>b\<newline>c\<newline>''
   \<and> process_python_tags unclosed_document =
       Inr [Str [], Str ''q = 1\<newline>  a'', Code (PythonCode ''write(2)'' 0), Str ''b\<newline>c\<newline>'']
   \<and> process_python_tags unclosed_document \<noteq>
       Inr [Str [], Str (concat (map (strip_indent 2) unclosed_body))]
   \<and> pypage py_exec unclosed_document = Inr ''q = 1\<newline>  a2b\<newline>c\<newline>''
   \<and> pypage py_exec unclosed_document \<noteq> Inr (concat (map (strip_indent 2) unclosed_body))"
  by code_simp

text \<open>
  C6, amended. A block-open line followed only by tag-free lines: scanning succeeds, the
  lines after the opening line, each stripped by \<^verbatim>\<open>strip_indent\<close> at the column of the
  opening tag, are flushed as one final plain segment, and the render is the render of the
  lines before the opening line followed by that text, unevaluated.
\<close>

theorem unterminated_block_flushed:
  assumes "re_delimiter_open opening" and "list_all tag_free_line body"
  shows "\<exists>segs. process_python_tags before = Inr segs
           \<and> process_python_tags (before @ opening # body) =
               Inr (segs @ [Str (concat (map (strip_indent (length (takeWhile isspace opening))) body))])
           \<and> pypage importCode (before @ opening # body) =
               map_sum id (\<lambda>text. text @ concat (map (strip_indent (length (takeWhile isspace opening))) body))
                 (pypage importCode before)"
proof -
  let ?k = "length (takeWhile isspace opening)"
  let ?rem = "concat (map (strip_indent ?k) body)"
  obtain st where st: "scan_lines scan_init before = Inr st"
    using scan_lines_total by blast
  define segs where "segs = st_result st @ [Str (st_collect st)]"
  have b: "process_python_tags before = Inr segs"
    using st by (simp add: process_python_tags_def segs_def)
  have w: "process_python_tags (before @ opening # body) = Inr (segs @ [Str ?rem])"
    using st assms
    by (simp add: process_python_tags_def scan_lines_append scan_line_open
        scan_lines_tag_free_code segs_def)
  have "pypage importCode (before @ opening # body) =
          map_sum id (\<lambda>text. text @ ?rem) (pypage importCode before)"
    unfolding pypage_def b w
    by (auto simp: code_objects_of_append substitute_append_Str split: sum.splits)
  with b w show ?thesis by blast
qed

lemma re_search_tag_here: "re_search tag (tag @ b) = Some 0"
proof (cases "tag @ b")
  case Nil
  then show ?thesis by simp
next
  case (Cons c cs)
  have "prefix tag (tag @ b)" by simp
  then have "prefix tag (c # cs)" by (simp only: Cons)
  then show ?thesis by (simp add: Cons)
qed

lemma first_occurrence_search:
  "first_occurrence tag a \<Longrightarrow> re_search tag (a @ tag @ b) = Some (length a)"
proof (induction a)
  case Nil
  show ?case by (simp add: re_search_tag_here)
next
  case (Cons c a)
  from Cons.prems have np: "\<not> prefix tag (c # a @ tag)"
    and r: "first_occurrence tag a"
    by (auto simp: first_occurrence_def split: if_splits)
  have "\<not> prefix tag ((c # a @ tag) @ b)"
  proof
    assume "prefix tag ((c # a @ tag) @ b)"
    then consider "prefix tag (c # a @ tag)" | us where "tag = (c # a @ tag) @ us"
      using prefix_append [of tag "c # a @ tag" b] by blast
    then show False
    proof cases
      case 1
      with np show False by simp
    next
      case 2
      then have "length tag = length ((c # a @ tag) @ us)" by simp
      then show False by simp
    qed
  qed
  with Cons.IH [OF r] show ?case by simp
qed

lemma split_nl_not_Nil [simp]: "split_nl s \<noteq> []"
  by (induction s) (auto split: list.splits)

lemma join_Cons_Cons: "join sep ((c # x) # xs) = c # join sep (x # xs)"
  by (cases xs) simp_all

lemma join_split_nl: "join ''\<newline>'' (split_nl s) = s"
proof (induction s)
  case Nil
  show ?case by simp
next
  case (Cons c s)
  obtain x xs where x: "split_nl s = x # xs"
    by (cases "split_nl s") simp_all
  with Cons.IH show ?case by (simp add: join_Cons_Cons)
qed

lemma reindent_0: "reindent 0 s = s"
  by (simp add: reindent_def join_split_nl)

lemma inline_pair_scan:
  assumes "line = a @ ''<py>'' @ x @ ''</py>'' @ rest"
    and "first_occurrence ''<py>'' a"
    and "first_occurrence ''</py>'' (a @ ''<py>'' @ x)"
    and "\<not> re_delimiter_open line" and "\<not> re_delimiter_close line"
  shows "scan_line st line =
           Inr (st\<lparr>st_result := st_result st @ [Str (st_collect st @ a), Code (PythonCode x 0)],
                   st_collect := rest\<rparr>)"
proof -
  have ops: "re_short_open line = Some (length a)"
    using first_occurrence_search [OF assms(2), of "x @ ''</py>'' @ rest"] assms(1)
    by (simp add: re_short_open_def inline_delimiter_open_def)
  have cls: "re_short_close line = Some (length a + 4 + length x)"
    using first_occurrence_search [OF assms(3), of rest] assms(1)
    by (simp add: re_short_close_def inline_delimiter_close_def)
  have pre_py: "take (length a) line = a"
    by (simp add: assms(1))
  have in_py: "slice (length a + length inline_delimiter_open) (length a + 4 + length x) line = x"
    by (simp add: assms(1) slice_def inline_delimiter_open_def)
  have post_py: "drop (length a + 4 + length x + length inline_delimiter_close) line = rest"
  proof -
    have "line = (a @ ''<py>'' @ x @ ''</py>'') @ rest"
      by (simp add: assms(1))
    then have "drop (length (a @ ''<py>'' @ x @ ''</py>'')) line = rest"
      by (metis append_eq_conv_conj)
    moreover have "length (a @ ''<py>'' @ x @ ''</py>'') =
        length a + 4 + length x + length inline_delimiter_close"
      by (simp add: inline_delimiter_close_def)
    ultimately show ?thesis by (simp only:)
  qed
  show ?thesis
    by (simp only: scan_line_def assms(4,5) ops cls if_False option.case prod.case Let_def
        pre_py in_py post_py)
qed

lemma inline_pair_process:
  assumes "line = a @ ''<py>'' @ x @ ''</py>'' @ rest"
    and "first_occurrence ''<py>'' a"
    and "first_occurrence ''</py>'' (a @ ''<py>'' @ x)"
    and "\<not> re_delimiter_open line" and "\<not> re_delimiter_close line"
  shows "process_python_tags [line] = Inr [Str a, Code (PythonCode x 0), Str rest]"
  by (simp add: process_python_tags_def inline_pair_scan [OF assms] scan_init_def)

lemma inline_pair_render:
  assumes "line = a @ ''<py>'' @ x @ ''</py>'' @ rest"
    and "first_occurrence ''<py>'' a"
    and "first_occurrence ''</py>'' (a @ ''<py>'' @ x)"
    and "\<not> re_delimiter_open line" and "\<not> re_delimiter_close line"
    and "importCode (program_text [PythonCode x 0]) = Inr [out]"
  shows "pypage importCode [line] = Inr (a @ out @ rest)"
  using assms(6)
  by (simp add: pypage_def inline_pair_process [OF assms(1-5)] execPythonCode_def reindent_0)

text \<open>
  C7, as stated, fails on a line whose first closing delimiter stands before its first
  opening delimiter: the two searches are independent, the slice between the end of the
  first \<^verbatim>\<open><py>\<close> and the start of the first \<^verbatim>\<open></py>\<close> is empty, and the text after
  that first \<^verbatim>\<open></py>\<close> is kept whole. The code segment is empty, not the interior of the
  first pair, and the text between the two delimiters appears twice in the render.
\<close>

theorem closing_before_opening_counterexample:
  "close_first_line = ''</py>a'' @ ''<py>'' @ ''x'' @ ''</py>'' @ ''b'' @ ''<py>'' @ ''y'' @ ''</py>'' @ ''c''
   \<and> process_python_tags [close_first_line] =
       Inr [Str ''</py>a'', Code (PythonCode [] 0), Str ''a<py>x</py>b<py>y</py>c'']
   \<and> process_python_tags [close_first_line] \<noteq>
       Inr [Str ''</py>a'', Code (PythonCode ''x'' 0), Str ''b<py>y</py>c'']
   \<and> pypage py_exec [close_first_line] = Inr ''</py>aa<py>x</py>b<py>y</py>c''"
  by code_simp

text \<open>
  C7, amended. On a line with two inline pairs that matches neither block delimiter, where
  the first \<^verbatim>\<open><py>\<close> is the one after \<open>a\<close> and the first \<^verbatim>\<open></py>\<close> the one after \<open>x\<close>
  (no closing delimiter stands before the first opening delimiter), the scanner emits \<open>x\<close>
  as a \<^verbatim>\<open>PythonCode\<close> segment of level 0 and keeps everything after the first closing
  delimiter, the second pair included, as plain text: it is in the accumulator after the
  line, in the final plain segment of the one-line document, and in the render.
\<close>

theorem first_inline_pair_only:
  assumes "line = a @ ''<py>'' @ x @ ''</py>'' @ b @ ''<py>'' @ y @ ''</py>'' @ c"
    and "first_occurrence ''<py>'' a"
    and "first_occurrence ''</py>'' (a @ ''<py>'' @ x)"
    and "\<not> re_delimiter_open line" and "\<not> re_delimiter_close line"
  shows "scan_line st line =
           Inr (st\<lparr>st_result := st_result st @ [Str (st_collect st @ a), Code (PythonCode x 0)],
                   st_collect := b @ ''<py>'' @ y @ ''</py>'' @ c\<rparr>)
         \<and> process_python_tags [line] =
             Inr [Str a, Code (PythonCode x 0), Str (b @ ''<py>'' @ y @ ''</py>'' @ c)]
         \<and> (importCode (program_text [PythonCode x 0]) = Inr [out] \<longrightarrow>
              pypage importCode [line] = Inr (a @ out @ b @ ''<py>'' @ y @ ''</py>'' @ c))"
  using inline_pair_scan [OF assms] inline_pair_process [OF assms]
    inline_pair_render [OF assms, of importCode out]
  by blast

lemma block_scan:
  assumes "re_delimiter_open opening" and "list_all tag_free_line body"
    and "re_delimiter_close closing"
  shows "scan_lines st (opening # body @ [closing]) =
     Inr \<lparr>st_result = st_result st @ [Str (st_collect st),
              Code (PythonCode
                (concat (map (strip_indent (length (takeWhile isspace opening))) body))
                (length (takeWhile isspace opening)))],
          st_collect = ''\<newline>'', st_id_level = 0, st_mode = mode_plain\<rparr>"
proof -
  let ?k = "length (takeWhile isspace opening)"
  define st1 where "st1 = \<lparr>st_result = st_result st @ [Str (st_collect st)], st_collect = [],
      st_id_level = ?k, st_mode = mode_code\<rparr>"
  define st2 where "st2 = st1\<lparr>st_collect := concat (map (strip_indent ?k) body)\<rparr>"
  have s1: "scan_line st opening = Inr st1"
    using scan_line_open [OF assms(1), of st] by (simp add: st1_def)
  have s2: "scan_lines st1 body = Inr st2"
    using scan_lines_tag_free_code [OF assms(2), of st1] by (simp add: st1_def st2_def)
  have s3: "scan_line st2 closing =
     Inr \<lparr>st_result = st_result st @ [Str (st_collect st),
              Code (PythonCode (concat (map (strip_indent ?k) body)) ?k)],
          st_collect = ''\<newline>'', st_id_level = 0, st_mode = mode_plain\<rparr>"
    using scan_line_close [OF assms(3), of st2] by (simp add: st1_def st2_def)
  have "scan_lines st (opening # (body @ [closing])) = scan_lines st1 (body @ [closing])"
    by (simp only: scan_lines.simps s1 sum.case)
  also have "\<dots> = scan_lines st2 [closing]"
    by (simp only: scan_lines_append s2 sum.case)
  also have "\<dots> =
     Inr \<lparr>st_result = st_result st @ [Str (st_collect st),
              Code (PythonCode (concat (map (strip_indent ?k) body)) ?k)],
          st_collect = ''\<newline>'', st_id_level = 0, st_mode = mode_plain\<rparr>"
    by (simp only: scan_lines.simps s3 sum.case)
  finally show ?thesis .
qed

lemma block_render_empty:
  assumes "re_delimiter_open opening" and "list_all tag_free_line body"
    and "re_delimiter_close closing"
    and "importCode (program_text
           [PythonCode (concat (map (strip_indent (length (takeWhile isspace opening))) body))
              (length (takeWhile isspace opening))]) = Inr [[]]"
  shows "pypage importCode (opening # body @ [closing]) =
           Inr (replicate (length (takeWhile isspace opening)) CHR '' '' @ ''\<newline>'')"
proof -
  have "process_python_tags (opening # body @ [closing]) =
      Inr [Str [], Code (PythonCode
             (concat (map (strip_indent (length (takeWhile isspace opening))) body))
             (length (takeWhile isspace opening))), Str ''\<newline>'']"
    unfolding process_python_tags_def block_scan [OF assms(1-3)]
    by (simp add: scan_init_def)
  with assms(4) show ?thesis
    by (simp add: pypage_def execPythonCode_def reindent_empty)
qed

text \<open>
  C10. An empty buffer is re-indented to \<open>k\<close> spaces, not to the empty string
  (\<^verbatim>\<open>"".split('\n')\<close> is the list of one empty piece): nothing for level 0, and for a
  segment of a render the spaces of its own indentation level. So a block whose tag opens
  at column \<open>k\<close> and whose script writes nothing renders as \<open>k\<close> spaces (followed by the
  newline of the block-close branch), and an inline tag whose code writes nothing renders
  as nothing between the text before and after it.
\<close>

theorem empty_buffer_reindent:
  "reindent k [] = replicate k CHR '' '' \<and> reindent 0 [] = []
   \<and> (importCode (program_text code_objects) = Inr bufs \<longrightarrow>
      execPythonCode importCode code_objects = Inr outs \<longrightarrow>
      i < length bufs \<longrightarrow> bufs ! i = [] \<longrightarrow>
      outs ! i = replicate (id_level (code_objects ! i)) CHR '' '')
   \<and> (re_delimiter_open opening \<longrightarrow> list_all tag_free_line body \<longrightarrow>
      re_delimiter_close closing \<longrightarrow>
      importCode (program_text
        [PythonCode (concat (map (strip_indent (length (takeWhile isspace opening))) body))
           (length (takeWhile isspace opening))]) = Inr [[]] \<longrightarrow>
      pypage importCode (opening # body @ [closing]) =
        Inr (replicate (length (takeWhile isspace opening)) CHR '' '' @ ''\<newline>''))
   \<and> (line = a @ ''<py>'' @ x @ ''</py>'' @ rest \<longrightarrow>
      first_occurrence ''<py>'' a \<longrightarrow> first_occurrence ''</py>'' (a @ ''<py>'' @ x) \<longrightarrow>
      \<not> re_delimiter_open line \<longrightarrow> \<not> re_delimiter_close line \<longrightarrow>
      importCode (program_text [PythonCode x 0]) = Inr [[]] \<longrightarrow>
      pypage importCode [line] = Inr (a @ rest))"
proof -
  have e: "outs ! i = replicate (id_level (code_objects ! i)) CHR '' ''"
    if h: "importCode (program_text code_objects) = Inr bufs"
      "execPythonCode importCode code_objects = Inr outs" "i < length bufs" "bufs ! i = []"
  proof -
    from h have a: "apply_indentation (map id_level code_objects) bufs = Inr outs"
      by (simp add: execPythonCode_def)
    from apply_indentation_Inr [OF a] h(3,4) show ?thesis
      by (simp add: reindent_empty)
  qed
  have b: "pypage importCode [line] = Inr (a @ rest)"
    if "line = a @ ''<py>'' @ x @ ''</py>'' @ rest" "first_occurrence ''<py>'' a"
      "first_occurrence ''</py>'' (a @ ''<py>'' @ x)"
      "\<not> re_delimiter_open line" "\<not> re_delimiter_close line"
      "importCode (program_text [PythonCode x 0]) = Inr [[]]"
    using inline_pair_render [of line a x rest importCode "[]"] that by simp
  have c: "pypage importCode (opening # body @ [closing]) =
        Inr (replicate (length (takeWhile isspace opening)) CHR '' '' @ ''\<newline>'')"
    if "re_delimiter_open opening" "list_all tag_free_line body" "re_delimiter_close closing"
      "importCode (program_text
        [PythonCode (concat (map (strip_indent (length (takeWhile isspace opening))) body))
           (length (takeWhile isspace opening))]) = Inr [[]]"
    using that by (rule block_render_empty)
  from e b c show ?thesis
    by (simp add: reindent_empty)
qed

section \<open>Concrete documents\<close>

text \<open>
  Each result above, used at a document that satisfies its hypotheses, with \<open>py_exec\<close> as
  the host.
\<close>

theorem tag_free_render_identity_witness:
  "list_all tag_free_line [''Hello\<newline>'', ''  <b>bold</b> and <py> alone\<newline>'', ''world'']
   \<and> py_exec (program_text []) = Inr []
   \<and> process_python_tags [''Hello\<newline>'', ''  <b>bold</b> and <py> alone\<newline>'', ''world'']
       = Inr [Str ''Hello\<newline>  <b>bold</b> and <py> alone\<newline>world'']
   \<and> pypage py_exec [''Hello\<newline>'', ''  <b>bold</b> and <py> alone\<newline>'', ''world'']
       = Inr ''Hello\<newline>  <b>bold</b> and <py> alone\<newline>world''"
proof -
  let ?doc = "[''Hello\<newline>'', ''  <b>bold</b> and <py> alone\<newline>'', ''world'']"
  have h: "list_all tag_free_line ?doc" by code_simp
  have e: "py_exec (program_text []) = Inr []" by code_simp
  from tag_free_render_identity [OF h, of py_exec] e h show ?thesis by simp
qed

theorem evaluation_error_propagates_witness:
  "process_python_tags [''<py>write(y)</py>''] = Inr [Str [], Code (PythonCode ''write(y)'' 0), Str []]
   \<and> py_exec (program_text (code_objects_of [Str [], Code (PythonCode ''write(y)'' 0), Str []]))
       = Inl (NameError ''y'')
   \<and> pypage py_exec [''<py>write(y)</py>''] = Inl (NameError ''y'')"
proof -
  have p: "process_python_tags [''<py>write(y)</py>'']
      = Inr [Str [], Code (PythonCode ''write(y)'' 0), Str []]"
    by code_simp
  have e: "py_exec (program_text (code_objects_of [Str [], Code (PythonCode ''write(y)'' 0), Str []]))
       = Inl (NameError ''y'')"
    by code_simp
  from evaluation_error_propagates [of "[''<py>write(y)</py>'']" "[Str [], Code (PythonCode ''write(y)'' 0), Str []]"
      py_exec "NameError ''y''"] p e
  show ?thesis by simp
qed

theorem empty_buffer_reindent_witness:
  "py_exec (program_text [PythonCode ''pass\<newline>'' 2]) = Inr [[]]
   \<and> execPythonCode py_exec [PythonCode ''pass\<newline>'' 2] = Inr [''  '']
   \<and> [''  ''] ! 0 = replicate (id_level ([PythonCode ''pass\<newline>'' 2] ! 0)) CHR '' ''
   \<and> re_delimiter_open ''  <python>\<newline>'' \<and> list_all tag_free_line [''  pass\<newline>'']
   \<and> re_delimiter_close ''  </python>\<newline>''
   \<and> pypage py_exec (''  <python>\<newline>'' # [''  pass\<newline>''] @ [''  </python>\<newline>'']) = Inr ''  \<newline>''
   \<and> first_occurrence ''<py>'' ''['' \<and> first_occurrence ''</py>'' (''['' @ ''<py>'' @ ''pass'')
   \<and> \<not> re_delimiter_open ''[<py>pass</py>]'' \<and> \<not> re_delimiter_close ''[<py>pass</py>]''
   \<and> py_exec (program_text [PythonCode ''pass'' 0]) = Inr [[]]
   \<and> pypage py_exec [''[<py>pass</py>]''] = Inr ''[]''"
proof -
  let ?opening = "''  <python>\<newline>''"
  have h: "py_exec (program_text [PythonCode ''pass\<newline>'' 2]) = Inr [[]]" by code_simp
  have e: "execPythonCode py_exec [PythonCode ''pass\<newline>'' 2] = Inr [''  '']" by code_simp
  have o: "re_delimiter_open ?opening" by code_simp
  have t: "list_all tag_free_line [''  pass\<newline>'']" by code_simp
  have c: "re_delimiter_close ''  </python>\<newline>''" by code_simp
  have k: "length (takeWhile isspace ?opening) = 2" by code_simp
  have s: "concat (map (strip_indent 2) [''  pass\<newline>'']) = ''pass\<newline>''" by code_simp
  have l: "''[<py>pass</py>]'' = ''['' @ ''<py>'' @ ''pass'' @ ''</py>'' @ '']''" by simp
  have f1: "first_occurrence ''<py>'' ''[''" by code_simp
  have f2: "first_occurrence ''</py>'' (''['' @ ''<py>'' @ ''pass'')" by code_simp
  have n1: "\<not> re_delimiter_open ''[<py>pass</py>]''" by code_simp
  have n2: "\<not> re_delimiter_close ''[<py>pass</py>]''" by code_simp
  have g: "py_exec (program_text [PythonCode ''pass'' 0]) = Inr [[]]" by code_simp
  note th = empty_buffer_reindent [of 2 py_exec "[PythonCode ''pass\<newline>'' 2]" "[[]]" "[''  '']" 0
      ?opening "[''  pass\<newline>'']" "''  </python>\<newline>''" "''[<py>pass</py>]''" "''[''" "''pass''" "'']''"]
  from th h e have 1: "[''  ''] ! 0 = replicate (id_level ([PythonCode ''pass\<newline>'' 2] ! 0)) CHR '' ''"
    by simp
  from th o t c h have 2: "pypage py_exec (?opening # [''  pass\<newline>''] @ [''  </python>\<newline>'']) =
      Inr (replicate (length (takeWhile isspace ?opening)) CHR '' '' @ ''\<newline>'')"
    unfolding k s by blast
  have 2: "pypage py_exec (?opening # [''  pass\<newline>''] @ [''  </python>\<newline>'']) = Inr ''  \<newline>''"
    using 2 unfolding k by (simp add: numeral_2_eq_2)
  from th l f1 f2 n1 n2 g have 3: "pypage py_exec [''[<py>pass</py>]''] = Inr (''['' @ '']'')"
    by blast
  from h e 1 o t c 2 f1 f2 n1 n2 g 3 show ?thesis by simp
qed

theorem stray_close_emits_code_witness:
  "scan_lines scan_init [''x = 1\<newline>''] =
      Inr \<lparr>st_result = [], st_collect = ''x = 1\<newline>'', st_id_level = 0, st_mode = mode_plain\<rparr>
   \<and> re_delimiter_close ''</python>\<newline>''
   \<and> list_all tag_free_line [''x = 1\<newline>'']
   \<and> process_python_tags [''x = 1\<newline>'', ''</python>\<newline>''] =
       Inr [Code (PythonCode ''x = 1\<newline>'' 0), Str ''\<newline>'']
   \<and> pypage py_exec [''x = 1\<newline>'', ''</python>\<newline>'', ''<py>write(x)</py>''] = Inr ''\<newline>1''"
proof -
  let ?st = "\<lparr>st_result = [], st_collect = ''x = 1\<newline>'', st_id_level = 0, st_mode = mode_plain\<rparr>"
  have s: "scan_lines scan_init [''x = 1\<newline>''] = Inr ?st" by code_simp
  have m: "st_mode ?st = mode_plain" by simp
  have c: "re_delimiter_close ''</python>\<newline>''" by code_simp
  have t: "list_all tag_free_line [''x = 1\<newline>'']" by code_simp
  have r: "pypage py_exec [''x = 1\<newline>'', ''</python>\<newline>'', ''<py>write(x)</py>''] = Inr ''\<newline>1''"
    by code_simp
  from stray_close_emits_code [OF s m c] s c t r show ?thesis by simp
qed

theorem unterminated_block_flushed_witness:
  "re_delimiter_open ''  <python>\<newline>''
   \<and> list_all tag_free_line [''  write(1)\<newline>'', ''\<newline>'']
   \<and> process_python_tags [''a\<newline>'', ''  <python>\<newline>'', ''  write(1)\<newline>'', ''\<newline>'']
       = Inr [Str ''a\<newline>'', Str ''write(1)\<newline>\<newline>'']
   \<and> pypage py_exec [''a\<newline>'', ''  <python>\<newline>'', ''  write(1)\<newline>'', ''\<newline>'']
       = Inr ''a\<newline>write(1)\<newline>\<newline>''"
proof -
  have o: "re_delimiter_open ''  <python>\<newline>''" by code_simp
  have b: "list_all tag_free_line [''  write(1)\<newline>'', ''\<newline>'']" by code_simp
  have k: "length (takeWhile isspace ''  <python>\<newline>'') = 2" by code_simp
  have r: "concat (map (strip_indent 2) [''  write(1)\<newline>'', ''\<newline>'']) = ''write(1)\<newline>\<newline>''"
    by code_simp
  have p: "process_python_tags [''a\<newline>''] = Inr [Str ''a\<newline>'']" by code_simp
  have q: "pypage py_exec [''a\<newline>''] = Inr ''a\<newline>''" by code_simp
  from unterminated_block_flushed [OF o b, of "[''a\<newline>'']" py_exec] o b show ?thesis
    unfolding k r p q by simp
qed

theorem first_inline_pair_only_witness:
  "first_occurrence ''<py>'' ''a''
   \<and> first_occurrence ''</py>'' (''a'' @ ''<py>'' @ ''write(1)'')
   \<and> \<not> re_delimiter_open ''a<py>write(1)</py>b<py>write(2)</py>c\<newline>''
   \<and> \<not> re_delimiter_close ''a<py>write(1)</py>b<py>write(2)</py>c\<newline>''
   \<and> py_exec (program_text [PythonCode ''write(1)'' 0]) = Inr [''1'']
   \<and> process_python_tags [''a<py>write(1)</py>b<py>write(2)</py>c\<newline>''] =
       Inr [Str ''a'', Code (PythonCode ''write(1)'' 0), Str ''b<py>write(2)</py>c\<newline>'']
   \<and> pypage py_exec [''a<py>write(1)</py>b<py>write(2)</py>c\<newline>''] =
       Inr ''a1b<py>write(2)</py>c\<newline>''"
proof -
  let ?line = "''a<py>write(1)</py>b<py>write(2)</py>c\<newline>''"
  have l: "?line = ''a'' @ ''<py>'' @ ''write(1)'' @ ''</py>'' @ ''b'' @ ''<py>'' @ ''write(2)'' @ ''</py>'' @ ''c\<newline>''"
    by simp
  have f1: "first_occurrence ''<py>'' ''a''" by code_simp
  have f2: "first_occurrence ''</py>'' (''a'' @ ''<py>'' @ ''write(1)'')" by code_simp
  have n1: "\<not> re_delimiter_open ?line" by code_simp
  have n2: "\<not> re_delimiter_close ?line" by code_simp
  have e: "py_exec (program_text [PythonCode ''write(1)'' 0]) = Inr [''1'']" by code_simp
  from first_inline_pair_only [OF l f1 f2 n1 n2, of _ py_exec "''1''"] e f1 f2 n1 n2 show ?thesis by simp
qed

section \<open>The block around a loop\<close>

text \<open>
  C3, as stated, fails: \<^verbatim>\<open>write\<close> appends \<^verbatim>\<open>str(s)\<close> and nothing else, so the three calls
  leave the buffer \<^verbatim>\<open>012\<close>, one piece, which is indented once.
\<close>

theorem loop_block_three_lines_counterexample:
  "execPythonCode py_exec [PythonCode ''for i in range(3):\<newline>    write(i)\<newline>'' 4] = Inr [''    012'']
   \<and> pypage py_exec loop_block = Inr ''    012\<newline>''
   \<and> pypage py_exec loop_block \<noteq> Inr ''    0\<newline>    1\<newline>    2\<newline>''"
  by code_simp

lemma loop_block_scan:
  assumes "st_mode st = mode_plain"
  shows "scan_lines st loop_block =
     Inr \<lparr>st_result = st_result st @ [Str (st_collect st),
              Code (PythonCode ''for i in range(3):\<newline>    write(i)\<newline>'' 4)],
          st_collect = ''\<newline>'', st_id_level = 0, st_mode = mode_plain\<rparr>"
proof -
  let ?opening = "''    <python>\<newline>''"
  let ?body = "[''    for i in range(3):\<newline>'', ''        write(i)\<newline>'']"
  let ?closing = "''    </python>\<newline>''"
  let ?code = "''for i in range(3):\<newline>    write(i)\<newline>''"
  define st1 where "st1 = \<lparr>st_result = st_result st @ [Str (st_collect st)], st_collect = [],
      st_id_level = 4, st_mode = mode_code\<rparr>"
  define st2 where "st2 = st1\<lparr>st_collect := ?code\<rparr>"
  have o: "re_delimiter_open ?opening" by code_simp
  have k: "length (takeWhile isspace ?opening) = 4" by code_simp
  have b: "list_all tag_free_line ?body" by code_simp
  have s: "concat (map (strip_indent 4) ?body) = ?code" by code_simp
  have c: "re_delimiter_close ?closing" by code_simp
  have s1: "scan_line st ?opening = Inr st1"
    using scan_line_open [OF o, of st] k by (simp add: st1_def)
  have s2: "scan_lines st1 ?body = Inr st2"
    using scan_lines_tag_free_code [OF b, of st1] s by (simp add: st1_def st2_def)
  have s3: "scan_line st2 ?closing =
     Inr \<lparr>st_result = st_result st @ [Str (st_collect st), Code (PythonCode ?code 4)],
          st_collect = ''\<newline>'', st_id_level = 0, st_mode = mode_plain\<rparr>"
    using scan_line_close [OF c, of st2] by (simp add: st1_def st2_def)
  have lb: "loop_block = ?opening # (?body @ [?closing])"
    by (simp add: loop_block_def)
  have "scan_lines st (?opening # (?body @ [?closing])) = scan_lines st1 (?body @ [?closing])"
    by (simp only: scan_lines.simps s1 sum.case)
  also have "\<dots> = scan_lines st2 [?closing]"
    by (simp only: scan_lines_append s2 sum.case)
  also have "\<dots> =
     Inr \<lparr>st_result = st_result st @ [Str (st_collect st), Code (PythonCode ?code 4)],
          st_collect = ''\<newline>'', st_id_level = 0, st_mode = mode_plain\<rparr>"
    by (simp only: scan_lines.simps s3 sum.case)
  finally show ?thesis
    by (simp only: lb)
qed

text \<open>
  C3, amended. Between tag-free lines, the block at column 4 around the loop is replaced by
  the single line of four spaces and \<^verbatim>\<open>012\<close>; the newline after it is the one the
  block-close branch puts into the accumulator.
\<close>

theorem loop_block_render:
  assumes "list_all tag_free_line before" and "list_all tag_free_line after"
  shows "pypage py_exec (before @ loop_block @ after) =
           Inr (concat before @ ''    012'' @ ''\<newline>'' @ concat after)"
proof -
  let ?pc = "PythonCode ''for i in range(3):\<newline>    write(i)\<newline>'' 4"
  have e: "execPythonCode py_exec [?pc] = Inr [''    012'']" by code_simp
  have "process_python_tags (before @ loop_block @ after) =
      Inr [Str (concat before), Code ?pc, Str (''\<newline>'' @ concat after)]"
    using assms
    by (simp add: process_python_tags_def scan_lines_append scan_lines_tag_free_plain
        scan_init_def loop_block_scan)
  then show ?thesis
    by (simp add: pypage_def e)
qed

theorem loop_block_render_witness:
  "list_all tag_free_line [''<ul>\<newline>''] \<and> list_all tag_free_line [''</ul>\<newline>'']
   \<and> pypage py_exec ([''<ul>\<newline>''] @ loop_block @ [''</ul>\<newline>'']) =
       Inr ''<ul>\<newline>    012\<newline></ul>\<newline>''"
proof -
  have b: "list_all tag_free_line [''<ul>\<newline>'']" by code_simp
  have a: "list_all tag_free_line [''</ul>\<newline>'']" by code_simp
  from loop_block_render [OF b a] a b show ?thesis by simp
qed

section \<open>The buffers of a render\<close>














end
